theory Spec2Isabelle
  imports Main
begin

section \<open>Data model\<close>

text \<open>
  The rows of the three tables the code reads and writes through the Prisma client.
  Identifiers are strings, as in the source; only the key of a vote row, which the
  store generates and the code treats as opaque, is a counter value. Instants are
  the millisecond values that \<open>Date.getTime()\<close> and \<open>Date.now()\<close> return. The
  bookkeeping column \<open>updatedAt\<close> is read by no code under \<open>src\<close> and is left out.
\<close>

datatype poll_status = OPEN | CLOSED

record poll =
  poll_id :: string
  title :: string
  description :: "string option"
  guildId :: string
  channelId :: string
  messageId :: "string option"
  creatorId :: string
  allowMultiple :: bool
  isAnonymous :: bool
  status :: poll_status
  expiresAt :: "int option"
  createdAt :: int

record poll_option =
  option_id :: string
  option_pollId :: string
  option_text :: string
  emoji :: string
  position :: int

record vote =
  vote_id :: nat
  vote_userId :: string
  vote_pollId :: string
  vote_optionId :: string

text \<open>
  A job of the \<open>poll-close\<close> queue: name, payload \<open>{ pollId }\<close>, and the two options
  \<open>delay\<close> and \<open>jobId\<close> that \<open>addPollCloseJob\<close> passes.
\<close>

record close_job =
  job_name :: string
  job_pollId :: string
  delay :: int
  jobId :: string

section \<open>The store and the queue\<close>

text \<open>
  An error thrown by a store or queue call carries an optional \<open>code\<close>
  (\<open>error.code\<close> in the source; Prisma's code for a violated unique constraint
  is \<open>P2002\<close>, for a missing row \<open>P2025\<close>).
\<close>

datatype db_error = DbError (code: "string option")

datatype db_call =
  PollFindUnique | PollUpdate | VoteCreate | VoteDelete | VoteDeleteMany
  | QueueAdd | QueueGetJob | JobRemove

text \<open>
  The state the operations run against: the tables, the queue of delayed jobs, and
  \<open>rejects\<close>, which says for each kind of call whether the store or the queue is
  failing it (and with which error), the way the repository's tests make a mocked
  call reject. \<open>rejects\<close> is environment: no operation writes it.
\<close>

record store =
  polls :: "poll list"
  poll_options :: "poll_option list"
  votes :: "vote list"
  next_vote_id :: nat
  jobs :: "close_job list"
  rejects :: "db_call \<Rightarrow> db_error option"

definition healthy :: "store \<Rightarrow> bool" where
  "healthy s = (\<forall>c. rejects s c = None)"

text \<open>
  The store's own constraints on the vote table: the primary key, and the unique
  index over (pollId, userId, optionId).
\<close>

definition vote_key :: "vote \<Rightarrow> string \<times> string \<times> string" where
  "vote_key v = (vote_pollId v, vote_userId v, vote_optionId v)"

definition wf_store :: "store \<Rightarrow> bool" where
  "wf_store s =
     (distinct (map vote_id (votes s)) \<and>
      (\<forall>v \<in> set (votes s). vote_id v < next_vote_id s) \<and>
      distinct (map vote_key (votes s)))"

text \<open>
  \<open>prisma.poll.findUnique({ where: { id }, include: ... })\<close>: the lookup by key,
  and the relations the callers ask to have attached: the options of the poll
  (\<open>options: true\<close>), the votes of the poll that belong to one user
  (\<open>votes: { where: { userId } }\<close>), the votes of an option
  (\<open>options: { include: { votes } }\<close>) and the number of votes of the poll
  (\<open>_count: { select: { votes: true } }\<close>).
\<close>

definition poll_findUnique :: "store \<Rightarrow> string \<Rightarrow> db_error + poll option" where
  "poll_findUnique s pollId =
     (case rejects s PollFindUnique of
        Some e \<Rightarrow> Inl e
      | None \<Rightarrow> Inr (find (\<lambda>p. poll_id p = pollId) (polls s)))"

definition include_options :: "store \<Rightarrow> string \<Rightarrow> poll_option list" where
  "include_options s pollId = filter (\<lambda>opt. option_pollId opt = pollId) (poll_options s)"

definition include_user_votes :: "store \<Rightarrow> string \<Rightarrow> string \<Rightarrow> vote list" where
  "include_user_votes s pollId userId =
     filter (\<lambda>v. vote_pollId v = pollId \<and> vote_userId v = userId) (votes s)"

definition include_option_votes :: "store \<Rightarrow> poll_option \<Rightarrow> vote list" where
  "include_option_votes s opt = filter (\<lambda>v. vote_optionId v = option_id opt) (votes s)"

definition count_votes :: "store \<Rightarrow> string \<Rightarrow> nat" where
  "count_votes s pollId = length (filter (\<lambda>v. vote_pollId v = pollId) (votes s))"

text \<open>\<open>prisma.vote.delete({ where: { id } })\<close>; a missing row is error \<open>P2025\<close>.\<close>

definition vote_delete :: "store \<Rightarrow> nat \<Rightarrow> db_error + store" where
  "vote_delete s vid =
     (case rejects s VoteDelete of
        Some e \<Rightarrow> Inl e
      | None \<Rightarrow>
          if vid \<in> set (map vote_id (votes s))
          then Inr (s\<lparr>votes := filter (\<lambda>v. vote_id v \<noteq> vid) (votes s)\<rparr>)
          else Inl (DbError (Some ''P2025'')))"

text \<open>\<open>prisma.vote.deleteMany({ where: { pollId, userId } })\<close>.\<close>

definition vote_deleteMany :: "store \<Rightarrow> string \<Rightarrow> string \<Rightarrow> db_error + store" where
  "vote_deleteMany s pollId userId =
     (case rejects s VoteDeleteMany of
        Some e \<Rightarrow> Inl e
      | None \<Rightarrow>
          Inr (s\<lparr>votes :=
            filter (\<lambda>v. \<not> (vote_pollId v = pollId \<and> vote_userId v = userId)) (votes s)\<rparr>))"

text \<open>
  \<open>prisma.vote.create({ data: { userId, pollId, optionId } })\<close>: the unique index
  rejects a second row for the same triple with \<open>P2002\<close>; otherwise the row is
  stored under a fresh key.
\<close>

definition vote_create :: "store \<Rightarrow> string \<Rightarrow> string \<Rightarrow> string \<Rightarrow> db_error + store" where
  "vote_create s userId pollId optionId =
     (case rejects s VoteCreate of
        Some e \<Rightarrow> Inl e
      | None \<Rightarrow>
          if (pollId, userId, optionId) \<in> set (map vote_key (votes s))
          then Inl (DbError (Some ''P2002''))
          else Inr (s\<lparr>votes := votes s @
                 [\<lparr>vote_id = next_vote_id s, vote_userId = userId,
                   vote_pollId = pollId, vote_optionId = optionId\<rparr>],
                 next_vote_id := Suc (next_vote_id s)\<rparr>))"

text \<open>
  \<open>prisma.poll.update({ where: { id }, data: { status: 'CLOSED' } })\<close>; a missing
  row is error \<open>P2025\<close>.
\<close>

definition poll_update_closed :: "store \<Rightarrow> string \<Rightarrow> db_error + store" where
  "poll_update_closed s pollId =
     (case rejects s PollUpdate of
        Some e \<Rightarrow> Inl e
      | None \<Rightarrow>
          if pollId \<in> set (map poll_id (polls s))
          then Inr (s\<lparr>polls :=
                 map (\<lambda>p. if poll_id p = pollId then p\<lparr>status := CLOSED\<rparr> else p) (polls s)\<rparr>)
          else Inl (DbError (Some ''P2025'')))"

section \<open>Vote engine: \<open>VoteService.castVote\<close>\<close>

datatype vote_action = added | removed

record vote_reply =
  success :: bool
  message :: string
  action :: vote_action

text \<open>
  The body of the outer \<open>try\<close> block. The result pairs the store as the calls left
  it with either the error that escaped or the value returned.
\<close>

definition castVote_try ::
  "store \<Rightarrow> int \<Rightarrow> string \<Rightarrow> string \<Rightarrow> string \<Rightarrow> store \<times> (db_error + vote_reply)" where
  \<open>castVote_try s now pollId userId optionId =
     (case poll_findUnique s pollId of
        Inl e \<Rightarrow> (s, Inl e)
      | Inr None \<Rightarrow>
          (s, Inr \<lparr>success = False, message = ''Poll not found'', action = added\<rparr>)
      | Inr (Some poll) \<Rightarrow>
          if status poll = CLOSED then
            (s, Inr \<lparr>success = False, message = ''Poll is closed'', action = added\<rparr>)
          else if (case expiresAt poll of None \<Rightarrow> False | Some t \<Rightarrow> t < now) then
            (s, Inr \<lparr>success = False, message = ''Poll has expired'', action = added\<rparr>)
          else
            (case find (\<lambda>opt. option_id opt = optionId) (include_options s pollId) of
               None \<Rightarrow>
                 (s, Inr \<lparr>success = False, message = ''Invalid option'', action = added\<rparr>)
             | Some selectedOption \<Rightarrow>
                 (case find (\<lambda>v. vote_optionId v = optionId)
                         (include_user_votes s pollId userId) of
                    Some existingVote \<Rightarrow>
                      (case vote_delete s (vote_id existingVote) of
                         Inl e \<Rightarrow> (s, Inl e)
                       | Inr s1 \<Rightarrow>
                           (s1, Inr \<lparr>success = True,
                              message = ''Removed vote for "'' @ option_text selectedOption @ ''"'',
                              action = removed\<rparr>))
                  | None \<Rightarrow>
                      (case (if \<not> allowMultiple poll
                                \<and> 0 < length (include_user_votes s pollId userId)
                             then vote_deleteMany s pollId userId else Inr s) of
                         Inl e \<Rightarrow> (s, Inl e)
                       | Inr s1 \<Rightarrow>
                           (case vote_create s1 userId pollId optionId of
                              Inr s2 \<Rightarrow>
                                (s2, Inr \<lparr>success = True,
                                   message = ''Voted for "'' @ option_text selectedOption @ ''"'',
                                   action = added\<rparr>)
                            | Inl error \<Rightarrow>
                                if code error = Some ''P2002'' then
                                  (s1, Inr \<lparr>success = False,
                                     message = ''You have already voted for this option'',
                                     action = added\<rparr>)
                                else (s1, Inl error))))))\<close>

definition castVote ::
  "store \<Rightarrow> int \<Rightarrow> string \<Rightarrow> string \<Rightarrow> string \<Rightarrow> store \<times> vote_reply" where
  "castVote s now pollId userId optionId =
     (case castVote_try s now pollId userId optionId of
        (s', Inr r) \<Rightarrow> (s', r)
      | (s', Inl e) \<Rightarrow>
          (s', \<lparr>success = False,
                message = ''An error occurred while processing your vote'',
                action = added\<rparr>))"

section \<open>The button handler: \<open>handleVoteButton\<close>\<close>

text \<open>
  The handler the bot runs on a vote button. It repeats the steps of \<open>castVote\<close>
  against the store itself and answers with an ephemeral reply. The Boolean of the
  result says whether the handler went on to \<open>updatePollMessage\<close>, which re-reads
  the poll and edits the posted message inside its own \<open>try\<close> and writes nothing
  to the store. Replies to the chat platform are taken as delivered.
\<close>

record interaction_reply =
  content :: string
  ephemeral :: bool

definition handleVoteButton_try ::
  "store \<Rightarrow> int \<Rightarrow> string \<Rightarrow> string \<Rightarrow> string
     \<Rightarrow> store \<times> (db_error + interaction_reply \<times> bool)" where
  \<open>handleVoteButton_try s now pollId userId optionId =
     (case poll_findUnique s pollId of
        Inl e \<Rightarrow> (s, Inl e)
      | Inr None \<Rightarrow> (s, Inr (\<lparr>content = ''Poll not found.'', ephemeral = True\<rparr>, False))
      | Inr (Some poll) \<Rightarrow>
          if status poll = CLOSED then
            (s, Inr (\<lparr>content = ''This poll is closed.'', ephemeral = True\<rparr>, False))
          else if (case expiresAt poll of None \<Rightarrow> False | Some t \<Rightarrow> t < now) then
            (s, Inr (\<lparr>content = ''This poll has expired.'', ephemeral = True\<rparr>, False))
          else
            (case find (\<lambda>opt. option_id opt = optionId) (include_options s pollId) of
               None \<Rightarrow>
                 (s, Inr (\<lparr>content = ''Invalid option selected.'', ephemeral = True\<rparr>, False))
             | Some selectedOption \<Rightarrow>
                 (case find (\<lambda>v. vote_optionId v = optionId)
                         (include_user_votes s pollId userId) of
                    Some existingVote \<Rightarrow>
                      (case vote_delete s (vote_id existingVote) of
                         Inl e \<Rightarrow> (s, Inl e)
                       | Inr s1 \<Rightarrow>
                           (s1, Inr (\<lparr>content =
                                  ''Removed your vote for "'' @ option_text selectedOption @ ''".'',
                                ephemeral = True\<rparr>, True)))
                  | None \<Rightarrow>
                      (case (if \<not> allowMultiple poll
                                \<and> 0 < length (include_user_votes s pollId userId)
                             then vote_deleteMany s pollId userId else Inr s) of
                         Inl e \<Rightarrow> (s, Inl e)
                       | Inr s1 \<Rightarrow>
                           (case vote_create s1 userId pollId optionId of
                              Inr s2 \<Rightarrow>
                                (s2, Inr (\<lparr>content =
                                       ''Voted for "'' @ option_text selectedOption @ ''".'',
                                     ephemeral = True\<rparr>, True))
                            | Inl error \<Rightarrow>
                                (s1, Inr (\<lparr>content = ''You have already voted for this option.'',
                                          ephemeral = True\<rparr>, False)))))))\<close>

definition handleVoteButton ::
  "store \<Rightarrow> int \<Rightarrow> string \<Rightarrow> string \<Rightarrow> string \<Rightarrow> store \<times> interaction_reply \<times> bool" where
  "handleVoteButton s now pollId userId optionId =
     (case handleVoteButton_try s now pollId userId optionId of
        (s', Inr r) \<Rightarrow> (s', r)
      | (s', Inl e) \<Rightarrow>
          (s', \<lparr>content = ''An error occurred while processing your vote.'',
                ephemeral = True\<rparr>, False))"

section \<open>Poll lifecycle: \<open>closePoll\<close> and the closure worker\<close>

text \<open>
  \<open>closePoll\<close> of the \<open>/poll close\<close> command; \<open>userId\<close> is \<open>interaction.user.id\<close>.
  It makes two store calls and no queue call.
\<close>

definition closePoll_try ::
  "store \<Rightarrow> string \<Rightarrow> string \<Rightarrow> store \<times> (db_error + interaction_reply)" where
  \<open>closePoll_try s pollId userId =
     (case poll_findUnique s pollId of
        Inl e \<Rightarrow> (s, Inl e)
      | Inr None \<Rightarrow> (s, Inr \<lparr>content = ''Poll not found.'', ephemeral = True\<rparr>)
      | Inr (Some poll) \<Rightarrow>
          if creatorId poll \<noteq> userId then
            (s, Inr \<lparr>content = ''Only the poll creator can close this poll.'',
                     ephemeral = True\<rparr>)
          else if status poll = CLOSED then
            (s, Inr \<lparr>content = ''This poll is already closed.'', ephemeral = True\<rparr>)
          else
            (case poll_update_closed s pollId of
               Inl e \<Rightarrow> (s, Inl e)
             | Inr s1 \<Rightarrow>
                 (s1, Inr \<lparr>content = ''Poll "'' @ title poll @ ''" has been closed.'',
                           ephemeral = False\<rparr>)))\<close>

definition closePoll :: "store \<Rightarrow> string \<Rightarrow> string \<Rightarrow> store \<times> interaction_reply" where
  "closePoll s pollId userId =
     (case closePoll_try s pollId userId of
        (s', Inr r) \<Rightarrow> (s', r)
      | (s', Inl e) \<Rightarrow>
          (s', \<lparr>content = ''An error occurred while closing the poll.'', ephemeral = True\<rparr>))"

text \<open>
  The processor that \<open>createPollCloseWorker\<close> gives the \<open>poll-close\<close> worker, run on
  the job's \<open>pollId\<close>. An error of a store call is re-thrown (the queue then retries
  the job); a failure while editing the posted message is caught and logged.
  \<open>discord_ok\<close> is the outcome of that best-effort part, and the Boolean of the
  result says whether the message was edited and the final results announced.
\<close>

datatype job_outcome = JobCompleted | JobFailed db_error

definition pollCloseProcessor ::
  "bool \<Rightarrow> store \<Rightarrow> string \<Rightarrow> store \<times> job_outcome \<times> bool" where
  "pollCloseProcessor discord_ok s pollId =
     (case poll_findUnique s pollId of
        Inl e \<Rightarrow> (s, JobFailed e, False)
      | Inr None \<Rightarrow> (s, JobCompleted, False)
      | Inr (Some poll) \<Rightarrow>
          if status poll = CLOSED then (s, JobCompleted, False)
          else
            (case poll_update_closed s pollId of
               Inl e \<Rightarrow> (s, JobFailed e, False)
             | Inr s1 \<Rightarrow>
                 (s1, JobCompleted,
                  (case messageId poll of None \<Rightarrow> False | Some m \<Rightarrow> m \<noteq> []) \<and> discord_ok)))"

section \<open>Closure scheduler: \<open>addPollCloseJob\<close> and \<open>removePollCloseJob\<close>\<close>

text \<open>
  \<open>pollCloseQueue.add(name, data, opts)\<close> of the queue library: a job whose \<open>jobId\<close>
  is already in the queue is not added a second time. The job keeps the \<open>delay\<close> it
  was given.
\<close>

definition queue_add :: "store \<Rightarrow> close_job \<Rightarrow> db_error + store" where
  "queue_add s job =
     (case rejects s QueueAdd of
        Some e \<Rightarrow> Inl e
      | None \<Rightarrow>
          if jobId job \<in> set (map jobId (jobs s)) then Inr s
          else Inr (s\<lparr>jobs := jobs s @ [job]\<rparr>))"

text \<open>The arguments \<open>addPollCloseJob\<close> builds for that call, at the instant \<open>now\<close>.\<close>

definition close_job_args :: "int \<Rightarrow> string \<Rightarrow> int \<Rightarrow> close_job" where
  "close_job_args now pollId closeAt =
     \<lparr>job_name = ''close-poll'', job_pollId = pollId,
      delay = closeAt - now, jobId = ''poll-'' @ pollId\<rparr>"

definition addPollCloseJob :: "store \<Rightarrow> int \<Rightarrow> string \<Rightarrow> int \<Rightarrow> db_error + store" where
  "addPollCloseJob s now pollId closeAt = queue_add s (close_job_args now pollId closeAt)"

definition removePollCloseJob :: "store \<Rightarrow> string \<Rightarrow> db_error + store" where
  "removePollCloseJob s pollId =
     (case rejects s QueueGetJob of
        Some e \<Rightarrow> Inl e
      | None \<Rightarrow>
          (case find (\<lambda>j. jobId j = ''poll-'' @ pollId) (jobs s) of
             None \<Rightarrow> Inr s
           | Some job \<Rightarrow>
               (case rejects s JobRemove of
                  Some e \<Rightarrow> Inl e
                | None \<Rightarrow> Inr (s\<lparr>jobs := filter (\<lambda>j. jobId j \<noteq> jobId job) (jobs s)\<rparr>))))"

section \<open>Results: \<open>VoteService.getPollResults\<close>\<close>

record vote_result =
  result_optionId :: string
  result_text :: string
  result_count :: nat
  result_percentage :: int
  result_voters :: "string list option"

record poll_results =
  results_pollId :: string
  results_title :: string
  totalVotes :: nat
  results :: "vote_result list"
  results_isAnonymous :: bool
  results_status :: poll_status

text \<open>
  \<open>totalVotes > 0 ? Math.round((count / totalVotes) * 100) : 0\<close>. The numbers
  of the source are double-precision floats: the quotient is rounded to the nearest
  double, the product with 100 is rounded again, and \<open>Math.round\<close> takes the
  nearest integer, a half going upwards. A positive double is held here as a pair
  \<open>(m, e)\<close> standing for \<open>m * 2 ^ e\<close>, with \<open>m\<close> of 53 bits;
  \<open>round_to_double p q\<close> is the double nearest to the quotient of the positive
  integers \<open>p\<close> and \<open>q\<close>, a tie going to the even significand. Counts are
  lengths of arrays, far inside the range where doubles are normal numbers.
\<close>

fun bit_length :: "nat \<Rightarrow> nat" where
  "bit_length n = (if n = 0 then 0 else Suc (bit_length (n div 2)))"

declare bit_length.simps [simp del]

definition round_quotient :: "int \<Rightarrow> int \<Rightarrow> int" where
  "round_quotient n d =
     (if 2 * (n mod d) < d \<or> (2 * (n mod d) = d \<and> even (n div d))
      then n div d else n div d + 1)"

definition double_exponent :: "int \<Rightarrow> int \<Rightarrow> int \<Rightarrow> int" where
  "double_exponent p q k =
     (if (if 0 \<le> k then q * 2 ^ nat k \<le> p else q \<le> p * 2 ^ nat (- k))
      then k - 52 else k - 53)"

definition round_scaled :: "int \<Rightarrow> int \<Rightarrow> int \<Rightarrow> int \<times> int" where
  "round_scaled p q e =
     (if e < 0 then (round_quotient (p * 2 ^ nat (- e)) q, e)
      else (round_quotient p (q * 2 ^ nat e), e))"

definition round_to_double :: "int \<Rightarrow> int \<Rightarrow> int \<times> int" where
  "round_to_double p q =
     round_scaled p q
       (double_exponent p q (int (bit_length (nat p)) - int (bit_length (nat q))))"

definition double_times_100 :: "int \<times> int \<Rightarrow> int \<times> int" where
  "double_times_100 x =
     (if 0 \<le> snd x then round_to_double (100 * fst x * 2 ^ nat (snd x)) 1
      else round_to_double (100 * fst x) (2 ^ nat (- snd x)))"

definition math_round :: "int \<times> int \<Rightarrow> int" where
  "math_round x =
     (if 0 \<le> snd x then fst x * 2 ^ nat (snd x)
      else (2 * fst x + 2 ^ nat (- snd x)) div (2 * 2 ^ nat (- snd x)))"

definition percentage :: "nat \<Rightarrow> nat \<Rightarrow> int" where
  "percentage count tot =
     (if 0 < tot then
        (if count = 0 then 0
         else math_round (double_times_100 (round_to_double (int count) (int tot))))
      else 0)"

text \<open>
  A \<open>const\<close> binding is uninitialised until its initialiser has been evaluated, and
  reading it before that throws a \<open>ReferenceError\<close>. Reading a property of
  \<open>undefined\<close> throws a \<open>TypeError\<close>.
\<close>

datatype js_error = ReferenceError | TypeError | StoreError db_error

datatype 'a binding = Uninitialized | Initialized 'a

definition read_binding :: "'a binding \<Rightarrow> js_error + 'a" where
  "read_binding b = (case b of Uninitialized \<Rightarrow> Inl ReferenceError | Initialized v \<Rightarrow> Inr v)"

text \<open>
  The body of the \<open>try\<close> block of \<open>getPollResults\<close>. The argument of
  \<open>findUnique\<close> is evaluated before the call, and it contains
  \<open>poll?.isAnonymous ? false : { select: { userId: true } }\<close>, a read of the
  binding \<open>poll\<close> that this very statement declares. \<open>withVotes\<close> says whether the
  votes of the options were asked for; without them \<open>option.votes\<close> is undefined.
\<close>

definition getPollResults_try :: "store \<Rightarrow> string \<Rightarrow> js_error + poll_results option" where
  "getPollResults_try s pollId =
     (case read_binding (Uninitialized :: poll option binding) of
        Inl e \<Rightarrow> Inl e
      | Inr before \<Rightarrow>
          (let withVotes = \<not> (case before of None \<Rightarrow> False | Some q \<Rightarrow> isAnonymous q) in
           case poll_findUnique s pollId of
             Inl e \<Rightarrow> Inl (StoreError e)
           | Inr None \<Rightarrow> Inr None
           | Inr (Some poll) \<Rightarrow>
               (let tot = count_votes s pollId;
                    options = sort_key position (include_options s pollId)
                in if \<not> withVotes \<and> options \<noteq> [] then Inl TypeError
                   else Inr (Some
                     \<lparr>results_pollId = poll_id poll,
                      results_title = title poll,
                      totalVotes = tot,
                      results = map (\<lambda>option.
                          \<lparr>result_optionId = option_id option,
                           result_text = option_text option,
                           result_count = length (include_option_votes s option),
                           result_percentage =
                             percentage (length (include_option_votes s option)) tot,
                           result_voters =
                             (if isAnonymous poll then None
                              else Some (map vote_userId (include_option_votes s option)))\<rparr>)
                        options,
                      results_isAnonymous = isAnonymous poll,
                      results_status = status poll\<rparr>))))"

definition getPollResults :: "store \<Rightarrow> string \<Rightarrow> poll_results option" where
  "getPollResults s pollId =
     (case getPollResults_try s pollId of Inl e \<Rightarrow> None | Inr r \<Rightarrow> r)"

section \<open>Runs of operations\<close>

text \<open>
  The operations that write to the store or the queue, and a step of the
  environment that changes which calls are being rejected.
\<close>

datatype core_op =
  CastVote int string string string
  | ButtonVote int string string string
  | ClosePoll string string
  | ScheduledClose bool string
  | Schedule int string int
  | Cancel string
  | Environment "db_call \<Rightarrow> db_error option"

fun apply_op :: "store \<Rightarrow> core_op \<Rightarrow> store" where
  "apply_op s (CastVote now pollId userId optionId) = fst (castVote s now pollId userId optionId)"
| "apply_op s (ButtonVote now pollId userId optionId) =
     fst (handleVoteButton s now pollId userId optionId)"
| "apply_op s (ClosePoll pollId userId) = fst (closePoll s pollId userId)"
| "apply_op s (ScheduledClose discord_ok pollId) = fst (pollCloseProcessor discord_ok s pollId)"
| "apply_op s (Schedule now pollId closeAt) =
     (case addPollCloseJob s now pollId closeAt of Inl e \<Rightarrow> s | Inr s' \<Rightarrow> s')"
| "apply_op s (Cancel pollId) = (case removePollCloseJob s pollId of Inl e \<Rightarrow> s | Inr s' \<Rightarrow> s')"
| "apply_op s (Environment r) = s\<lparr>rejects := r\<rparr>"

definition run_ops :: "store \<Rightarrow> core_op list \<Rightarrow> store" where
  "run_ops s ops = foldl apply_op s ops"

text \<open>What may happen to a poll row: nothing, or its status goes from OPEN to CLOSED.\<close>

definition status_step :: "poll \<Rightarrow> poll \<Rightarrow> bool" where
  "status_step p p' = (p' = p \<or> (status p = OPEN \<and> p' = p\<lparr>status := CLOSED\<rparr>))"

section \<open>Example states\<close>

text \<open>The polls, options and votes that the repository's tests use as fixtures.\<close>

definition example_poll :: poll where
  "example_poll =
     \<lparr>poll_id = ''poll1'', title = ''Test Poll'', description = None,
      guildId = ''guild1'', channelId = ''channel1'', messageId = Some ''message1'',
      creatorId = ''creator1'', allowMultiple = False, isAnonymous = False,
      status = OPEN, expiresAt = None, createdAt = 0\<rparr>"

definition example_options :: "poll_option list" where
  "example_options =
     [\<lparr>option_id = ''option1'', option_pollId = ''poll1'', option_text = ''Option 1'',
       emoji = ''1'', position = 0\<rparr>,
      \<lparr>option_id = ''option2'', option_pollId = ''poll1'', option_text = ''Option 2'',
       emoji = ''2'', position = 1\<rparr>]"

definition example_vote :: "nat \<Rightarrow> string \<Rightarrow> string \<Rightarrow> vote" where
  "example_vote n userId optionId =
     \<lparr>vote_id = n, vote_userId = userId, vote_pollId = ''poll1'', vote_optionId = optionId\<rparr>"

definition example_store :: "poll \<Rightarrow> vote list \<Rightarrow> store" where
  "example_store p vs =
     \<lparr>polls = [p], poll_options = example_options, votes = vs,
      next_vote_id = length vs, jobs = [], rejects = (\<lambda>c. None)\<rparr>"

section \<open>Lookups and the constraints of the vote table\<close>

lemma find_SomeD: "find P xs = Some x \<Longrightarrow> x \<in> set xs \<and> P x"
  by (induction xs) (auto split: if_splits)

lemma find_user_vote_None:
  "find (\<lambda>v. vote_optionId v = optionId) (include_user_votes s pollId userId) = None
   \<longleftrightarrow> (pollId, userId, optionId) \<notin> set (map vote_key (votes s))"
  by (auto simp: find_None_iff vote_key_def include_user_votes_def)

lemma find_user_vote_Some:
  assumes "find (\<lambda>v. vote_optionId v = optionId) (include_user_votes s pollId userId) = Some ev"
  shows "ev \<in> set (votes s) \<and> vote_key ev = (pollId, userId, optionId)"
  using find_SomeD[OF assms] by (auto simp: vote_key_def include_user_votes_def)

lemma filter_id_eq_filter_key:
  assumes "distinct (map vote_id vs)" "distinct (map vote_key vs)" "ev \<in> set vs"
  shows "filter (\<lambda>v. vote_id v \<noteq> vote_id ev) vs = filter (\<lambda>v. vote_key v \<noteq> vote_key ev) vs"
proof (rule filter_cong[OF refl])
  fix v assume "v \<in> set vs"
  with assms have "vote_id v = vote_id ev \<longleftrightarrow> v = ev" "vote_key v = vote_key ev \<longleftrightarrow> v = ev"
    by (auto simp: distinct_map inj_on_def)
  then show "(vote_id v \<noteq> vote_id ev) = (vote_key v \<noteq> vote_key ev)" by simp
qed

lemma wf_store_filter: "wf_store s \<Longrightarrow> wf_store (s\<lparr>votes := filter P (votes s)\<rparr>)"
  by (simp add: wf_store_def distinct_map_filter)

lemma wf_store_append:
  assumes "wf_store s" and "(pollId, userId, optionId) \<notin> set (map vote_key (votes s))"
  shows "wf_store (s\<lparr>votes := votes s @
            [\<lparr>vote_id = next_vote_id s, vote_userId = userId,
              vote_pollId = pollId, vote_optionId = optionId\<rparr>],
            next_vote_id := Suc (next_vote_id s)\<rparr>)"
  using assms by (auto simp: wf_store_def vote_key_def less_Suc_eq)

lemma find_poll_in_set: "find (\<lambda>p. poll_id p = pollId) ps = Some p \<Longrightarrow> pollId \<in> set (map poll_id ps)"
  by (induction ps) (auto split: if_splits)

lemma find_poll_after_close:
  "find (\<lambda>p. poll_id p = pollId)
      (map (\<lambda>q. if poll_id q = pollId then q\<lparr>status := CLOSED\<rparr> else q) ps)
   = map_option (\<lambda>q. q\<lparr>status := CLOSED\<rparr>) (find (\<lambda>p. poll_id p = pollId) ps)"
  by (induction ps) auto

text \<open>The vote calls write only the vote table, and keep its constraints.\<close>

lemma vote_delete_frame:
  "vote_delete s vid = Inr s' \<Longrightarrow>
     polls s' = polls s \<and> poll_options s' = poll_options s \<and> rejects s' = rejects s \<and> jobs s' = jobs s"
  by (auto simp: vote_delete_def split: option.splits if_splits)

lemma vote_deleteMany_frame:
  "vote_deleteMany s pollId userId = Inr s' \<Longrightarrow>
     polls s' = polls s \<and> poll_options s' = poll_options s \<and> rejects s' = rejects s \<and> jobs s' = jobs s"
  by (auto simp: vote_deleteMany_def split: option.splits)

lemma vote_create_frame:
  "vote_create s userId pollId optionId = Inr s' \<Longrightarrow>
     polls s' = polls s \<and> poll_options s' = poll_options s \<and> rejects s' = rejects s \<and> jobs s' = jobs s"
  by (auto simp: vote_create_def split: option.splits if_splits)

lemma castVote_frame:
  "polls (fst (castVote s now pollId userId optionId)) = polls s
   \<and> poll_options (fst (castVote s now pollId userId optionId)) = poll_options s
   \<and> rejects (fst (castVote s now pollId userId optionId)) = rejects s
   \<and> jobs (fst (castVote s now pollId userId optionId)) = jobs s"
  by (auto simp: castVote_def castVote_try_def
      dest!: vote_delete_frame vote_deleteMany_frame vote_create_frame
      split: sum.splits option.splits if_splits prod.splits)

lemma vote_delete_wf: "vote_delete s vid = Inr s' \<Longrightarrow> wf_store s \<Longrightarrow> wf_store s'"
  by (auto simp: vote_delete_def wf_store_filter split: option.splits if_splits)

lemma vote_deleteMany_wf: "vote_deleteMany s pollId userId = Inr s' \<Longrightarrow> wf_store s \<Longrightarrow> wf_store s'"
  by (auto simp: vote_deleteMany_def wf_store_filter split: option.splits)

lemma vote_create_wf: "vote_create s userId pollId optionId = Inr s' \<Longrightarrow> wf_store s \<Longrightarrow> wf_store s'"
  using wf_store_append[of s pollId userId optionId]
  by (auto simp: vote_create_def split: option.splits if_splits)

lemma castVote_wf: "wf_store s \<Longrightarrow> wf_store (fst (castVote s now pollId userId optionId))"
  by (auto simp: castVote_def castVote_try_def
      dest: vote_delete_wf vote_deleteMany_wf vote_create_wf
      split: sum.splits option.splits if_splits prod.splits)

section \<open>Toggle and replace\<close>

lemma castVote_toggle_off:
  assumes wf: "wf_store s"
    and ok: "rejects s PollFindUnique = None" "rejects s VoteDelete = None"
    and p: "find (\<lambda>p. poll_id p = pollId) (polls s) = Some p" "status p = OPEN"
    and unexp: "\<not> (case expiresAt p of None \<Rightarrow> False | Some t \<Rightarrow> t < now)"
    and opt: "find (\<lambda>opt. option_id opt = optionId) (include_options s pollId) = Some sel"
    and held: "(pollId, userId, optionId) \<in> set (map vote_key (votes s))"
  shows "castVote s now pollId userId optionId =
      (s\<lparr>votes := filter (\<lambda>v. vote_key v \<noteq> (pollId, userId, optionId)) (votes s)\<rparr>,
       \<lparr>success = True, message = ''Removed vote for \"'' @ option_text sel @ ''\"'',
        action = removed\<rparr>)"
proof -
  obtain ev where ev: "find (\<lambda>v. vote_optionId v = optionId)
      (include_user_votes s pollId userId) = Some ev"
    using held find_user_vote_None[of optionId s pollId userId] by fastforce
  from find_user_vote_Some[OF ev]
  have evs: "ev \<in> set (votes s)" "vote_key ev = (pollId, userId, optionId)"
    by auto
  from wf evs have flt: "filter (\<lambda>v. vote_id v \<noteq> vote_id ev) (votes s)
       = filter (\<lambda>v. vote_key v \<noteq> (pollId, userId, optionId)) (votes s)"
    using filter_id_eq_filter_key[of "votes s" ev] by (simp add: wf_store_def)
  show ?thesis
    using ok p unexp opt ev evs(1) flt
    by (simp add: castVote_def castVote_try_def poll_findUnique_def vote_delete_def)
qed

lemma castVote_add:
  assumes ok: "rejects s PollFindUnique = None" "rejects s VoteDeleteMany = None"
      "rejects s VoteCreate = None"
    and p: "find (\<lambda>p. poll_id p = pollId) (polls s) = Some p" "status p = OPEN"
    and unexp: "\<not> (case expiresAt p of None \<Rightarrow> False | Some t \<Rightarrow> t < now)"
    and opt: "find (\<lambda>opt. option_id opt = optionId) (include_options s pollId) = Some sel"
    and free: "(pollId, userId, optionId) \<notin> set (map vote_key (votes s))"
  shows "castVote s now pollId userId optionId =
      (s\<lparr>votes :=
           (if allowMultiple p then votes s
            else filter (\<lambda>v. \<not> (vote_pollId v = pollId \<and> vote_userId v = userId)) (votes s))
           @ [\<lparr>vote_id = next_vote_id s, vote_userId = userId,
               vote_pollId = pollId, vote_optionId = optionId\<rparr>],
         next_vote_id := Suc (next_vote_id s)\<rparr>,
       \<lparr>success = True, message = ''Voted for \"'' @ option_text sel @ ''\"'', action = added\<rparr>)"
proof -
  have none: "find (\<lambda>v. vote_optionId v = optionId) (include_user_votes s pollId userId) = None"
    using free by (simp add: find_user_vote_None)
  have free': "(pollId, userId, optionId) \<notin>
      vote_key ` {v \<in> set (votes s). \<not> (vote_pollId v = pollId \<and> vote_userId v = userId)}"
    using free by auto
  show ?thesis
  proof (cases "\<not> allowMultiple p \<and> 0 < length (include_user_votes s pollId userId)")
    case True
    then show ?thesis
      using ok p unexp opt none free'
      by (simp add: castVote_def castVote_try_def poll_findUnique_def vote_deleteMany_def
          vote_create_def)
  next
    case False
    show ?thesis
    proof (cases "allowMultiple p")
      case True
      then show ?thesis
        using ok p unexp opt none free
        by (simp add: castVote_def castVote_try_def poll_findUnique_def vote_create_def)
    next
      case single: False
      with False have e: "include_user_votes s pollId userId = []" by simp
      have n: "filter (\<lambda>v. vote_pollId v = pollId \<longrightarrow> vote_userId v \<noteq> userId) (votes s) = votes s"
        using e by (auto simp: include_user_votes_def filter_empty_conv filter_id_conv)
      show ?thesis
        using ok p unexp opt none free single e
        by (simp add: castVote_def castVote_try_def poll_findUnique_def vote_create_def n)
    qed
  qed
qed

lemma castVote_twice_same:
  assumes wf: "wf_store s" and ok: "healthy s"
    and p: "find (\<lambda>p. poll_id p = pollId) (polls s) = Some p" "status p = OPEN"
    and unexp1: "\<not> (case expiresAt p of None \<Rightarrow> False | Some t \<Rightarrow> t < now1)"
    and unexp2: "\<not> (case expiresAt p of None \<Rightarrow> False | Some t \<Rightarrow> t < now2)"
    and opt: "find (\<lambda>opt. option_id opt = optionId) (include_options s pollId) = Some sel"
    and free: "(pollId, userId, optionId) \<notin> set (map vote_key (votes s))"
  shows "snd (castVote s now1 pollId userId optionId) =
           \<lparr>success = True, message = ''Voted for \"'' @ option_text sel @ ''\"'', action = added\<rparr>"
    and "(pollId, userId, optionId)
           \<in> set (map vote_key (votes (fst (castVote s now1 pollId userId optionId))))"
    and "castVote (fst (castVote s now1 pollId userId optionId)) now2 pollId userId optionId =
           ((fst (castVote s now1 pollId userId optionId))
              \<lparr>votes := filter (\<lambda>v. vote_key v \<noteq> (pollId, userId, optionId))
                          (votes (fst (castVote s now1 pollId userId optionId)))\<rparr>,
            \<lparr>success = True, message = ''Removed vote for \"'' @ option_text sel @ ''\"'',
             action = removed\<rparr>)"
proof -
  let ?s1 = "fst (castVote s now1 pollId userId optionId)"
  from ok have r: "rejects s PollFindUnique = None" "rejects s VoteDeleteMany = None"
    "rejects s VoteCreate = None" "rejects s VoteDelete = None"
    by (simp_all add: healthy_def)
  note add = castVote_add[OF r(1,2,3) p unexp1 opt free]
  from add show "snd (castVote s now1 pollId userId optionId) =
           \<lparr>success = True, message = ''Voted for \"'' @ option_text sel @ ''\"'', action = added\<rparr>"
    by simp
  from add show held: "(pollId, userId, optionId) \<in> set (map vote_key (votes ?s1))"
    by (simp add: vote_key_def)
  have fr: "polls ?s1 = polls s" "poll_options ?s1 = poll_options s" "rejects ?s1 = rejects s"
    using castVote_frame[of s now1 pollId userId optionId] by simp_all
  have wf1: "wf_store ?s1" using wf by (rule castVote_wf)
  have opt1: "find (\<lambda>opt. option_id opt = optionId) (include_options ?s1 pollId) = Some sel"
    using opt fr(2) by (simp add: include_options_def)
  have p1: "find (\<lambda>p. poll_id p = pollId) (polls ?s1) = Some p"
    using p(1) fr(1) by simp
  have r1: "rejects ?s1 PollFindUnique = None" "rejects ?s1 VoteDelete = None"
    using r fr(3) by simp_all
  show "castVote ?s1 now2 pollId userId optionId =
           (?s1\<lparr>votes := filter (\<lambda>v. vote_key v \<noteq> (pollId, userId, optionId)) (votes ?s1)\<rparr>,
            \<lparr>success = True, message = ''Removed vote for \"'' @ option_text sel @ ''\"'',
             action = removed\<rparr>)"
    by (rule castVote_toggle_off[OF wf1 r1 p1 p(2) unexp2 opt1 held])
qed

text \<open>
  Claim C1. On a store that keeps its constraints and accepts the calls, for an OPEN
  poll that has not expired at either call and an option of that poll: if the user
  already holds a vote for exactly this option, \<open>castVote\<close> deletes that row, leaves
  every other row (also the user's other votes, whatever \<open>allowMultiple\<close> says) and
  answers \<open>removed\<close>; and starting from a state with no vote for the triple, casting
  twice answers \<open>added\<close>, then \<open>removed\<close>, and leaves no row for the triple.
\<close>

theorem castVote_toggle:
  assumes wf: "wf_store s" and ok: "healthy s"
    and p: "find (\<lambda>p. poll_id p = pollId) (polls s) = Some p" "status p = OPEN"
    and unexp1: "\<not> (case expiresAt p of None \<Rightarrow> False | Some t \<Rightarrow> t < now1)"
    and unexp2: "\<not> (case expiresAt p of None \<Rightarrow> False | Some t \<Rightarrow> t < now2)"
    and opt: "find (\<lambda>opt. option_id opt = optionId) (include_options s pollId) = Some sel"
  shows "((pollId, userId, optionId) \<in> set (map vote_key (votes s)) \<longrightarrow>
            castVote s now1 pollId userId optionId =
              (s\<lparr>votes := filter (\<lambda>v. vote_key v \<noteq> (pollId, userId, optionId)) (votes s)\<rparr>,
               \<lparr>success = True, message = ''Removed vote for \"'' @ option_text sel @ ''\"'',
                action = removed\<rparr>))
       \<and> ((pollId, userId, optionId) \<notin> set (map vote_key (votes s)) \<longrightarrow>
            action (snd (castVote s now1 pollId userId optionId)) = added
            \<and> action (snd (castVote (run_ops s [CastVote now1 pollId userId optionId])
                 now2 pollId userId optionId)) = removed
            \<and> filter (\<lambda>v. vote_key v = (pollId, userId, optionId))
                 (votes (run_ops s [CastVote now1 pollId userId optionId,
                                    CastVote now2 pollId userId optionId])) = [])"
proof (intro conjI impI)
  assume held: "(pollId, userId, optionId) \<in> set (map vote_key (votes s))"
  from ok have "rejects s PollFindUnique = None" "rejects s VoteDelete = None"
    by (simp_all add: healthy_def)
  with wf show "castVote s now1 pollId userId optionId =
              (s\<lparr>votes := filter (\<lambda>v. vote_key v \<noteq> (pollId, userId, optionId)) (votes s)\<rparr>,
               \<lparr>success = True, message = ''Removed vote for \"'' @ option_text sel @ ''\"'',
                action = removed\<rparr>)"
    using p unexp1 opt held by (intro castVote_toggle_off)
next
  assume free: "(pollId, userId, optionId) \<notin> set (map vote_key (votes s))"
  note twice = castVote_twice_same[OF wf ok p unexp1 unexp2 opt free]
  from twice(1) show "action (snd (castVote s now1 pollId userId optionId)) = added" by simp
  from twice(3) show "action (snd (castVote (run_ops s [CastVote now1 pollId userId optionId])
                 now2 pollId userId optionId)) = removed"
    by (simp add: run_ops_def)
  from twice(3) show "filter (\<lambda>v. vote_key v = (pollId, userId, optionId))
                 (votes (run_ops s [CastVote now1 pollId userId optionId,
                                    CastVote now2 pollId userId optionId])) = []"
    by (simp add: run_ops_def filter_empty_conv)
qed

theorem castVote_toggle_witness:
  "(wf_store (example_store example_poll [example_vote 0 ''user1'' ''option1''])
    \<and> healthy (example_store example_poll [example_vote 0 ''user1'' ''option1''])
    \<and> find (\<lambda>p. poll_id p = ''poll1'')
         (polls (example_store example_poll [example_vote 0 ''user1'' ''option1''])) = Some example_poll
    \<and> status example_poll = OPEN \<and> expiresAt example_poll = None
    \<and> find (\<lambda>opt. option_id opt = ''option1'')
         (include_options (example_store example_poll [example_vote 0 ''user1'' ''option1'']) ''poll1'')
        = Some (hd example_options)
    \<and> (''poll1'', ''user1'', ''option1'')
         \<in> set (map vote_key (votes (example_store example_poll [example_vote 0 ''user1'' ''option1''])))
    \<and> castVote (example_store example_poll [example_vote 0 ''user1'' ''option1''])
         1000 ''poll1'' ''user1'' ''option1'' =
        ((example_store example_poll [example_vote 0 ''user1'' ''option1''])\<lparr>votes := []\<rparr>,
         \<lparr>success = True, message = ''Removed vote for \"Option 1\"'', action = removed\<rparr>))
   \<and> (wf_store (example_store example_poll [])
    \<and> healthy (example_store example_poll [])
    \<and> find (\<lambda>p. poll_id p = ''poll1'') (polls (example_store example_poll []))
        = Some example_poll
    \<and> find (\<lambda>opt. option_id opt = ''option1'')
         (include_options (example_store example_poll []) ''poll1'') = Some (hd example_options)
    \<and> (''poll1'', ''user1'', ''option1'')
         \<notin> set (map vote_key (votes (example_store example_poll [])))
    \<and> castVote (example_store example_poll []) 1000 ''poll1'' ''user1'' ''option1'' =
        (example_store example_poll [example_vote 0 ''user1'' ''option1''],
         \<lparr>success = True, message = ''Voted for \"Option 1\"'', action = added\<rparr>)
    \<and> votes (run_ops (example_store example_poll [])
         [CastVote 1000 ''poll1'' ''user1'' ''option1'',
          CastVote 2000 ''poll1'' ''user1'' ''option1'']) = [])"
  using castVote_toggle
      [of "example_store example_poll [example_vote 0 ''user1'' ''option1'']" "''poll1''"
          example_poll 1000 2000 "''option1''" "hd example_options" "''user1''"]
    castVote_toggle
      [of "example_store example_poll []" "''poll1''"
          example_poll 1000 2000 "''option1''" "hd example_options" "''user1''"]
  by (simp add: castVote_def castVote_try_def poll_findUnique_def include_options_def
      include_user_votes_def vote_create_def vote_delete_def vote_deleteMany_def
      wf_store_def healthy_def vote_key_def run_ops_def
      example_store_def example_poll_def example_options_def example_vote_def)

text \<open>
  Claim C2, as stated, at a state the unique index admits and the claim does not
  exclude: the user already holds votes for both options of the single-select poll
  (two casts whose lookups both ran before either insert leave such a state, since
  the index covers the triple only). Casting for the first option toggles it off,
  casting for the second toggles that one off too, and the user is left with no
  vote instead of the second option.
\<close>

theorem castVote_replace_both_held:
  "wf_store (example_store example_poll
       [example_vote 0 ''user1'' ''option1'', example_vote 1 ''user1'' ''option2''])
   \<and> healthy (example_store example_poll
       [example_vote 0 ''user1'' ''option1'', example_vote 1 ''user1'' ''option2''])
   \<and> find (\<lambda>p. poll_id p = ''poll1'')
        (polls (example_store example_poll
           [example_vote 0 ''user1'' ''option1'', example_vote 1 ''user1'' ''option2'']))
       = Some example_poll
   \<and> status example_poll = OPEN \<and> \<not> allowMultiple example_poll \<and> expiresAt example_poll = None
   \<and> map option_id (include_options (example_store example_poll
           [example_vote 0 ''user1'' ''option1'', example_vote 1 ''user1'' ''option2'']) ''poll1'')
       = [''option1'', ''option2'']
   \<and> snd (castVote (example_store example_poll
           [example_vote 0 ''user1'' ''option1'', example_vote 1 ''user1'' ''option2''])
         1000 ''poll1'' ''user1'' ''option1'')
       = \<lparr>success = True, message = ''Removed vote for \"Option 1\"'', action = removed\<rparr>
   \<and> castVote (run_ops (example_store example_poll
           [example_vote 0 ''user1'' ''option1'', example_vote 1 ''user1'' ''option2''])
           [CastVote 1000 ''poll1'' ''user1'' ''option1''])
         2000 ''poll1'' ''user1'' ''option2''
       = ((example_store example_poll
            [example_vote 0 ''user1'' ''option1'', example_vote 1 ''user1'' ''option2''])
            \<lparr>votes := []\<rparr>,
          \<lparr>success = True, message = ''Removed vote for \"Option 2\"'', action = removed\<rparr>)
   \<and> include_user_votes
        (run_ops (example_store example_poll
           [example_vote 0 ''user1'' ''option1'', example_vote 1 ''user1'' ''option2''])
           [CastVote 1000 ''poll1'' ''user1'' ''option1'',
            CastVote 2000 ''poll1'' ''user1'' ''option2''])
        ''poll1'' ''user1'' = []
   \<and> map vote_optionId (include_user_votes
        (run_ops (example_store example_poll
           [example_vote 0 ''user1'' ''option1'', example_vote 1 ''user1'' ''option2''])
           [CastVote 1000 ''poll1'' ''user1'' ''option1'',
            CastVote 2000 ''poll1'' ''user1'' ''option2''])
        ''poll1'' ''user1'') \<noteq> [''option2'']"
  by (simp add: castVote_def castVote_try_def poll_findUnique_def include_options_def
      include_user_votes_def vote_create_def vote_delete_def vote_deleteMany_def
      wf_store_def healthy_def vote_key_def run_ops_def
      example_store_def example_poll_def example_options_def example_vote_def)

lemma castVote_replace_second:
  assumes wf: "wf_store s" and ok: "healthy s"
    and p: "find (\<lambda>p. poll_id p = pollId) (polls s) = Some p" "status p = OPEN"
    and single: "\<not> allowMultiple p"
    and unexp1: "\<not> (case expiresAt p of None \<Rightarrow> False | Some t \<Rightarrow> t < now1)"
    and unexp2: "\<not> (case expiresAt p of None \<Rightarrow> False | Some t \<Rightarrow> t < now2)"
    and opt1: "find (\<lambda>opt. option_id opt = option1) (include_options s pollId) = Some sel1"
    and opt2: "find (\<lambda>opt. option_id opt = option2) (include_options s pollId) = Some sel2"
    and neq: "option1 \<noteq> option2"
    and inv: "\<not> ((pollId, userId, option1) \<in> set (map vote_key (votes s))
                \<and> (pollId, userId, option2) \<in> set (map vote_key (votes s)))"
  shows "castVote (fst (castVote s now1 pollId userId option1)) now2 pollId userId option2 =
     ((fst (castVote s now1 pollId userId option1))
        \<lparr>votes := filter (\<lambda>v. \<not> (vote_pollId v = pollId \<and> vote_userId v = userId))
                    (votes (fst (castVote s now1 pollId userId option1)))
                  @ [\<lparr>vote_id = next_vote_id (fst (castVote s now1 pollId userId option1)),
                      vote_userId = userId, vote_pollId = pollId, vote_optionId = option2\<rparr>],
          next_vote_id := Suc (next_vote_id (fst (castVote s now1 pollId userId option1)))\<rparr>,
      \<lparr>success = True, message = ''Voted for \"'' @ option_text sel2 @ ''\"'', action = added\<rparr>)"
    and "filter (\<lambda>v. \<not> (vote_pollId v = pollId \<and> vote_userId v = userId))
           (votes (fst (castVote s now1 pollId userId option1)))
         = filter (\<lambda>v. \<not> (vote_pollId v = pollId \<and> vote_userId v = userId)) (votes s)"
proof -
  let ?s1 = "fst (castVote s now1 pollId userId option1)"
  let ?other = "\<lambda>v. \<not> (vote_pollId v = pollId \<and> vote_userId v = userId)"
  from ok have r: "rejects s PollFindUnique = None" "rejects s VoteDeleteMany = None"
    "rejects s VoteCreate = None" "rejects s VoteDelete = None"
    by (simp_all add: healthy_def)
  have fr: "polls ?s1 = polls s" "poll_options ?s1 = poll_options s" "rejects ?s1 = rejects s"
    using castVote_frame[of s now1 pollId userId option1] by simp_all
  have first: "(pollId, userId, option2) \<notin> set (map vote_key (votes ?s1))
      \<and> filter ?other (votes ?s1) = filter ?other (votes s)"
  proof (cases "(pollId, userId, option1) \<in> set (map vote_key (votes s))")
    case True
    with inv have no2: "(pollId, userId, option2) \<notin> set (map vote_key (votes s))" by simp
    have "votes ?s1 = filter (\<lambda>v. vote_key v \<noteq> (pollId, userId, option1)) (votes s)"
      using castVote_toggle_off[OF wf r(1) r(4) p unexp1 opt1 True] by simp
    moreover have "filter ?other (filter (\<lambda>v. vote_key v \<noteq> (pollId, userId, option1)) (votes s))
        = filter ?other (votes s)"
      by (auto simp: vote_key_def intro: filter_cong)
    ultimately show ?thesis using no2 by auto
  next
    case False
    have "votes ?s1 = filter ?other (votes s)
       @ [\<lparr>vote_id = next_vote_id s, vote_userId = userId,
           vote_pollId = pollId, vote_optionId = option1\<rparr>]"
      using castVote_add[OF r(1,2,3) p unexp1 opt1 False] single by simp
    then show ?thesis using neq by (auto simp: vote_key_def)
  qed
  then show "filter ?other (votes ?s1) = filter ?other (votes s)" by simp
  have wf1: "wf_store ?s1" using wf by (rule castVote_wf)
  have o1: "find (\<lambda>opt. option_id opt = option2) (include_options ?s1 pollId) = Some sel2"
    using opt2 fr(2) by (simp add: include_options_def)
  have p1: "find (\<lambda>p. poll_id p = pollId) (polls ?s1) = Some p"
    using p(1) fr(1) by simp
  have r1: "rejects ?s1 PollFindUnique = None" "rejects ?s1 VoteDeleteMany = None"
    "rejects ?s1 VoteCreate = None"
    using r fr(3) by simp_all
  from first have free: "(pollId, userId, option2) \<notin> set (map vote_key (votes ?s1))" by simp
  show "castVote ?s1 now2 pollId userId option2 =
     (?s1\<lparr>votes := filter ?other (votes ?s1)
                  @ [\<lparr>vote_id = next_vote_id ?s1,
                      vote_userId = userId, vote_pollId = pollId, vote_optionId = option2\<rparr>],
          next_vote_id := Suc (next_vote_id ?s1)\<rparr>,
      \<lparr>success = True, message = ''Voted for \"'' @ option_text sel2 @ ''\"'', action = added\<rparr>)"
    using castVote_add[OF r1 p1 p(2) unexp2 o1 free] single by simp
qed

text \<open>
  Claim C2, amended. On a store that keeps its constraints and accepts the calls,
  for an OPEN single-select poll that has not expired at either call, and two
  distinct options of it, starting from a state in which the user does not hold
  votes for both of them (so from every state in which the user holds at most one
  vote on the poll): after casting for the first and then for the second, the
  user's votes on the poll are exactly one row, for the second option. The second
  call leaves the table as the first call left it with all the user's rows on the
  poll removed and the new row appended, answers \<open>added\<close>, and the rows of
  everyone else are as they were at the start.
\<close>

theorem castVote_replace:
  assumes wf: "wf_store s" and ok: "healthy s"
    and p: "find (\<lambda>p. poll_id p = pollId) (polls s) = Some p" "status p = OPEN"
    and single: "\<not> allowMultiple p"
    and unexp1: "\<not> (case expiresAt p of None \<Rightarrow> False | Some t \<Rightarrow> t < now1)"
    and unexp2: "\<not> (case expiresAt p of None \<Rightarrow> False | Some t \<Rightarrow> t < now2)"
    and opt1: "find (\<lambda>opt. option_id opt = option1) (include_options s pollId) = Some sel1"
    and opt2: "find (\<lambda>opt. option_id opt = option2) (include_options s pollId) = Some sel2"
    and neq: "option1 \<noteq> option2"
    and inv: "\<not> ((pollId, userId, option1) \<in> set (map vote_key (votes s))
                \<and> (pollId, userId, option2) \<in> set (map vote_key (votes s)))"
  shows "map vote_optionId
           (include_user_votes
              (run_ops s [CastVote now1 pollId userId option1, CastVote now2 pollId userId option2])
              pollId userId) = [option2]
       \<and> votes (run_ops s [CastVote now1 pollId userId option1,
                            CastVote now2 pollId userId option2]) =
           filter (\<lambda>v. \<not> (vote_pollId v = pollId \<and> vote_userId v = userId))
             (votes (run_ops s [CastVote now1 pollId userId option1]))
           @ [\<lparr>vote_id = next_vote_id (run_ops s [CastVote now1 pollId userId option1]),
               vote_userId = userId, vote_pollId = pollId, vote_optionId = option2\<rparr>]
       \<and> snd (castVote (run_ops s [CastVote now1 pollId userId option1])
               now2 pollId userId option2) =
           \<lparr>success = True, message = ''Voted for \"'' @ option_text sel2 @ ''\"'', action = added\<rparr>
       \<and> filter (\<lambda>v. \<not> (vote_pollId v = pollId \<and> vote_userId v = userId))
            (votes (run_ops s [CastVote now1 pollId userId option1,
                               CastVote now2 pollId userId option2])) =
           filter (\<lambda>v. \<not> (vote_pollId v = pollId \<and> vote_userId v = userId)) (votes s)"
proof -
  note second = castVote_replace_second[OF wf ok p single unexp1 unexp2 opt1 opt2 neq inv]
  have 1: "run_ops s [CastVote now1 pollId userId option1] = fst (castVote s now1 pollId userId option1)"
    by (simp add: run_ops_def)
  have 2: "run_ops s [CastVote now1 pollId userId option1, CastVote now2 pollId userId option2]
      = fst (castVote (fst (castVote s now1 pollId userId option1)) now2 pollId userId option2)"
    by (simp add: run_ops_def)
  show ?thesis
    unfolding 1 2 second(1) using second(2)
    by (simp add: include_user_votes_def)
qed

theorem castVote_replace_witness:
  "wf_store (example_store example_poll [example_vote 0 ''user2'' ''option1''])
   \<and> healthy (example_store example_poll [example_vote 0 ''user2'' ''option1''])
   \<and> find (\<lambda>p. poll_id p = ''poll1'')
        (polls (example_store example_poll [example_vote 0 ''user2'' ''option1''])) = Some example_poll
   \<and> status example_poll = OPEN \<and> \<not> allowMultiple example_poll \<and> expiresAt example_poll = None
   \<and> find (\<lambda>opt. option_id opt = ''option1'')
        (include_options (example_store example_poll [example_vote 0 ''user2'' ''option1'']) ''poll1'')
       = Some (example_options ! 0)
   \<and> find (\<lambda>opt. option_id opt = ''option2'')
        (include_options (example_store example_poll [example_vote 0 ''user2'' ''option1'']) ''poll1'')
       = Some (example_options ! 1)
   \<and> ''option1'' \<noteq> ''option2''
   \<and> (''poll1'', ''user1'', ''option1'')
        \<notin> set (map vote_key (votes (example_store example_poll [example_vote 0 ''user2'' ''option1''])))
   \<and> votes (run_ops (example_store example_poll [example_vote 0 ''user2'' ''option1''])
        [CastVote 1000 ''poll1'' ''user1'' ''option1'']) =
       [example_vote 0 ''user2'' ''option1'', example_vote 1 ''user1'' ''option1'']
   \<and> votes (run_ops (example_store example_poll [example_vote 0 ''user2'' ''option1''])
        [CastVote 1000 ''poll1'' ''user1'' ''option1'',
         CastVote 2000 ''poll1'' ''user1'' ''option2'']) =
       [example_vote 0 ''user2'' ''option1'', example_vote 2 ''user1'' ''option2'']
   \<and> map vote_optionId (include_user_votes
        (run_ops (example_store example_poll [example_vote 0 ''user2'' ''option1''])
           [CastVote 1000 ''poll1'' ''user1'' ''option1'',
            CastVote 2000 ''poll1'' ''user1'' ''option2''])
        ''poll1'' ''user1'') = [''option2'']"
  using castVote_replace
      [of "example_store example_poll [example_vote 0 ''user2'' ''option1'']" "''poll1''"
          example_poll 1000 2000 "''option1''" "example_options ! 0"
          "''option2''" "example_options ! 1" "''user1''"]
  by (simp add: castVote_def castVote_try_def poll_findUnique_def include_options_def
      include_user_votes_def vote_create_def vote_delete_def vote_deleteMany_def
      wf_store_def healthy_def vote_key_def run_ops_def
      example_store_def example_poll_def example_options_def example_vote_def)

section \<open>Votes on closed and expired polls\<close>

text \<open>
  The status is checked before the expiry: a poll that is both CLOSED and expired
  answers \<open>Poll is closed\<close>.
\<close>

lemma castVote_closed_expired_poll:
  "status (example_poll\<lparr>status := CLOSED, expiresAt := Some 1000\<rparr>) = CLOSED
   \<and> expiresAt (example_poll\<lparr>status := CLOSED, expiresAt := Some 1000\<rparr>) = Some 1000
   \<and> (1000 :: int) < 2000
   \<and> castVote (example_store (example_poll\<lparr>status := CLOSED, expiresAt := Some 1000\<rparr>) [])
        2000 ''poll1'' ''user1'' ''option1'' =
       (example_store (example_poll\<lparr>status := CLOSED, expiresAt := Some 1000\<rparr>) [],
        \<lparr>success = False, message = ''Poll is closed'', action = added\<rparr>)
   \<and> message (snd (castVote
        (example_store (example_poll\<lparr>status := CLOSED, expiresAt := Some 1000\<rparr>) [])
        2000 ''poll1'' ''user1'' ''option1'')) \<noteq> ''Poll has expired''"
  by (simp add: castVote_def castVote_try_def poll_findUnique_def example_store_def
      example_poll_def)

text \<open>
  Claim C4. When the lookup succeeds: on a poll whose status is CLOSED, \<open>castVote\<close>
  fails with \<open>Poll is closed\<close>; on a poll whose \<open>expiresAt\<close> is set and
  strictly before the instant of the call and whose status is still OPEN (the
  closure job has not run), it fails with \<open>Poll has expired\<close>. In both cases the
  store is returned as it was, so no vote row changes.
\<close>

theorem castVote_closed_or_expired:
  assumes "rejects s PollFindUnique = None"
    and "find (\<lambda>p. poll_id p = pollId) (polls s) = Some p"
  shows "(status p = CLOSED \<longrightarrow>
            castVote s now pollId userId optionId =
              (s, \<lparr>success = False, message = ''Poll is closed'', action = added\<rparr>))
       \<and> (status p = OPEN \<and> (\<exists>t. expiresAt p = Some t \<and> t < now) \<longrightarrow>
            castVote s now pollId userId optionId =
              (s, \<lparr>success = False, message = ''Poll has expired'', action = added\<rparr>))"
  using assms by (auto simp add: castVote_def castVote_try_def poll_findUnique_def)

theorem castVote_closed_or_expired_witness:
  "(rejects (example_store (example_poll\<lparr>status := CLOSED\<rparr>) []) PollFindUnique = None
    \<and> find (\<lambda>p. poll_id p = ''poll1'') (polls (example_store (example_poll\<lparr>status := CLOSED\<rparr>) []))
        = Some (example_poll\<lparr>status := CLOSED\<rparr>)
    \<and> status (example_poll\<lparr>status := CLOSED\<rparr>) = CLOSED
    \<and> castVote (example_store (example_poll\<lparr>status := CLOSED\<rparr>) []) 2000 ''poll1'' ''user1'' ''option1'' =
        (example_store (example_poll\<lparr>status := CLOSED\<rparr>) [],
         \<lparr>success = False, message = ''Poll is closed'', action = added\<rparr>))
   \<and> (rejects (example_store (example_poll\<lparr>expiresAt := Some 1000\<rparr>) []) PollFindUnique = None
    \<and> find (\<lambda>p. poll_id p = ''poll1'') (polls (example_store (example_poll\<lparr>expiresAt := Some 1000\<rparr>) []))
        = Some (example_poll\<lparr>expiresAt := Some 1000\<rparr>)
    \<and> status (example_poll\<lparr>expiresAt := Some 1000\<rparr>) = OPEN
    \<and> expiresAt (example_poll\<lparr>expiresAt := Some 1000\<rparr>) = Some 1000 \<and> (1000 :: int) < 2000
    \<and> castVote (example_store (example_poll\<lparr>expiresAt := Some 1000\<rparr>) []) 2000 ''poll1'' ''user1'' ''option1'' =
        (example_store (example_poll\<lparr>expiresAt := Some 1000\<rparr>) [],
         \<lparr>success = False, message = ''Poll has expired'', action = added\<rparr>))"
  using castVote_closed_or_expired
      [of "example_store (example_poll\<lparr>status := CLOSED\<rparr>) []" "''poll1''"
          "example_poll\<lparr>status := CLOSED\<rparr>" 2000 "''user1''" "''option1''"]
    castVote_closed_or_expired
      [of "example_store (example_poll\<lparr>expiresAt := Some 1000\<rparr>) []" "''poll1''"
          "example_poll\<lparr>expiresAt := Some 1000\<rparr>" 2000 "''user1''" "''option1''"]
  by (simp add: example_store_def example_poll_def)

section \<open>A rejected insert\<close>

text \<open>
  When the insert is reached and the store rejects it, \<open>castVote\<close> answers
  \<open>You have already voted for this option\<close> exactly for the code \<open>P2002\<close> and
  the generic failure otherwise; \<open>handleVoteButton\<close> gives the duplicate-vote
  answer for every rejection.
\<close>

lemma castVote_insert_rejected:
  assumes ok: "rejects s PollFindUnique = None" "rejects s VoteDeleteMany = None"
    and rejected: "rejects s VoteCreate = Some e"
    and p: "find (\<lambda>p. poll_id p = pollId) (polls s) = Some p" "status p = OPEN"
    and unexp: "\<not> (case expiresAt p of None \<Rightarrow> False | Some t \<Rightarrow> t < now)"
    and opt: "find (\<lambda>opt. option_id opt = optionId) (include_options s pollId) = Some sel"
    and free: "(pollId, userId, optionId) \<notin> set (map vote_key (votes s))"
  shows "snd (castVote s now pollId userId optionId) =
           (if code e = Some ''P2002''
            then \<lparr>success = False, message = ''You have already voted for this option'',
                  action = added\<rparr>
            else \<lparr>success = False, message = ''An error occurred while processing your vote'',
                  action = added\<rparr>)"
proof -
  have none: "find (\<lambda>v. vote_optionId v = optionId) (include_user_votes s pollId userId) = None"
    using free by (simp add: find_user_vote_None)
  show ?thesis
    using ok rejected p unexp opt none
    by (simp add: castVote_def castVote_try_def poll_findUnique_def vote_deleteMany_def
        vote_create_def)
qed

lemma handleVoteButton_insert_rejected:
  assumes ok: "rejects s PollFindUnique = None" "rejects s VoteDeleteMany = None"
    and rejected: "rejects s VoteCreate = Some e"
    and p: "find (\<lambda>p. poll_id p = pollId) (polls s) = Some p" "status p = OPEN"
    and unexp: "\<not> (case expiresAt p of None \<Rightarrow> False | Some t \<Rightarrow> t < now)"
    and opt: "find (\<lambda>opt. option_id opt = optionId) (include_options s pollId) = Some sel"
    and free: "(pollId, userId, optionId) \<notin> set (map vote_key (votes s))"
  shows "snd (handleVoteButton s now pollId userId optionId) =
           (\<lparr>content = ''You have already voted for this option.'', ephemeral = True\<rparr>, False)"
proof -
  have none: "find (\<lambda>v. vote_optionId v = optionId) (include_user_votes s pollId userId) = None"
    using free by (simp add: find_user_vote_None)
  show ?thesis
    using ok rejected p unexp opt none
    by (simp add: handleVoteButton_def handleVoteButton_try_def poll_findUnique_def
        vote_deleteMany_def vote_create_def)
qed

text \<open>
  Claim C5. The claim asks that a rejected insert is reported as already-voted only
  for a violation of the unique index. With the store refusing the insert for
  another reason (code \<open>P1001\<close>, the database cannot be reached) and the user
  holding no vote, \<open>handleVoteButton\<close> still answers
  \<open>You have already voted for this option.\<close>, while \<open>castVote\<close> on the same
  state reports the generic failure.
\<close>

theorem handleVoteButton_outage_reported_as_duplicate:
  "votes ((example_store example_poll [])\<lparr>rejects := (\<lambda>c. None)(VoteCreate \<mapsto> DbError (Some ''P1001''))\<rparr>) = []
   \<and> handleVoteButton
        ((example_store example_poll [])\<lparr>rejects := (\<lambda>c. None)(VoteCreate \<mapsto> DbError (Some ''P1001''))\<rparr>)
        1000 ''poll1'' ''user1'' ''option1'' =
       ((example_store example_poll [])\<lparr>rejects := (\<lambda>c. None)(VoteCreate \<mapsto> DbError (Some ''P1001''))\<rparr>,
        \<lparr>content = ''You have already voted for this option.'', ephemeral = True\<rparr>, False)
   \<and> castVote
        ((example_store example_poll [])\<lparr>rejects := (\<lambda>c. None)(VoteCreate \<mapsto> DbError (Some ''P1001''))\<rparr>)
        1000 ''poll1'' ''user1'' ''option1'' =
       ((example_store example_poll [])\<lparr>rejects := (\<lambda>c. None)(VoteCreate \<mapsto> DbError (Some ''P1001''))\<rparr>,
        \<lparr>success = False, message = ''An error occurred while processing your vote'',
         action = added\<rparr>)"
  by (simp add: handleVoteButton_def handleVoteButton_try_def castVote_def castVote_try_def
      poll_findUnique_def include_options_def include_user_votes_def vote_create_def
      example_store_def example_poll_def example_options_def)

section \<open>Scheduled closure\<close>

lemma pollCloseProcessor_absent:
  assumes "rejects s PollFindUnique = None"
    and "find (\<lambda>p. poll_id p = pollId) (polls s) = None"
  shows "pollCloseProcessor d s pollId = (s, JobCompleted, False)"
  using assms by (simp add: pollCloseProcessor_def poll_findUnique_def)

lemma pollCloseProcessor_closed:
  assumes "rejects s PollFindUnique = None"
    and "find (\<lambda>p. poll_id p = pollId) (polls s) = Some p" and "status p = CLOSED"
  shows "pollCloseProcessor d s pollId = (s, JobCompleted, False)"
  using assms by (simp add: pollCloseProcessor_def poll_findUnique_def)

lemma pollCloseProcessor_open:
  assumes "rejects s PollFindUnique = None" and "rejects s PollUpdate = None"
    and "find (\<lambda>p. poll_id p = pollId) (polls s) = Some p" and "status p = OPEN"
  shows "pollCloseProcessor d s pollId =
     (s\<lparr>polls := map (\<lambda>q. if poll_id q = pollId then q\<lparr>status := CLOSED\<rparr> else q) (polls s)\<rparr>,
      JobCompleted, (case messageId p of None \<Rightarrow> False | Some m \<Rightarrow> m \<noteq> []) \<and> d)"
  using assms find_poll_in_set[of pollId "polls s" p]
  by (simp add: pollCloseProcessor_def poll_findUnique_def poll_update_closed_def)

lemma pollCloseProcessor_again:
  assumes ok: "rejects s PollFindUnique = None" "rejects s PollUpdate = None"
  shows "pollCloseProcessor d' (fst (pollCloseProcessor d s pollId)) pollId =
           (fst (pollCloseProcessor d s pollId), JobCompleted, False)"
proof (cases "find (\<lambda>p. poll_id p = pollId) (polls s)")
  case None
  with ok show ?thesis by (simp add: pollCloseProcessor_absent)
next
  case (Some p)
  show ?thesis
  proof (cases "status p")
    case CLOSED
    with ok Some show ?thesis by (simp add: pollCloseProcessor_closed)
  next
    case OPEN
    let ?s1 = "s\<lparr>polls := map (\<lambda>q. if poll_id q = pollId then q\<lparr>status := CLOSED\<rparr> else q) (polls s)\<rparr>"
    have 1: "fst (pollCloseProcessor d s pollId) = ?s1"
      using pollCloseProcessor_open[OF ok Some OPEN] by simp
    have "find (\<lambda>p. poll_id p = pollId) (polls ?s1) = Some (p\<lparr>status := CLOSED\<rparr>)"
      using Some by (simp add: find_poll_after_close)
    then have "pollCloseProcessor d' ?s1 pollId = (?s1, JobCompleted, False)"
      using ok pollCloseProcessor_closed[of ?s1 pollId "p\<lparr>status := CLOSED\<rparr>" d'] by simp
    with 1 show ?thesis by simp
  qed
qed

text \<open>
  Claim C6. When the store accepts the calls, the processor of the closure job
  completes without touching the store if the poll is not found, and likewise if the
  poll is already CLOSED; on an OPEN poll it sets the status to CLOSED, whoever
  created the poll (it takes no requester and makes no authorization check); and a
  second run on the state the first run left completes as a no-op.
\<close>

theorem pollCloseProcessor_idempotent:
  assumes ok: "rejects s PollFindUnique = None" "rejects s PollUpdate = None"
  shows "(find (\<lambda>p. poll_id p = pollId) (polls s) = None \<longrightarrow>
            pollCloseProcessor d s pollId = (s, JobCompleted, False))
       \<and> (\<forall>p. find (\<lambda>p. poll_id p = pollId) (polls s) = Some p \<and> status p = CLOSED \<longrightarrow>
            pollCloseProcessor d s pollId = (s, JobCompleted, False))
       \<and> (\<forall>p. find (\<lambda>p. poll_id p = pollId) (polls s) = Some p \<and> status p = OPEN \<longrightarrow>
            pollCloseProcessor d s pollId =
              (s\<lparr>polls := map (\<lambda>q. if poll_id q = pollId then q\<lparr>status := CLOSED\<rparr> else q)
                             (polls s)\<rparr>,
               JobCompleted, (case messageId p of None \<Rightarrow> False | Some m \<Rightarrow> m \<noteq> []) \<and> d)
            \<and> find (\<lambda>p. poll_id p = pollId) (polls (fst (pollCloseProcessor d s pollId)))
                = Some (p\<lparr>status := CLOSED\<rparr>))
       \<and> pollCloseProcessor d' (fst (pollCloseProcessor d s pollId)) pollId =
            (fst (pollCloseProcessor d s pollId), JobCompleted, False)"
proof (intro conjI allI impI)
  show "pollCloseProcessor d s pollId = (s, JobCompleted, False)"
    if "find (\<lambda>p. poll_id p = pollId) (polls s) = None"
    using that ok by (simp add: pollCloseProcessor_absent)
  show "pollCloseProcessor d s pollId = (s, JobCompleted, False)"
    if "find (\<lambda>p. poll_id p = pollId) (polls s) = Some p \<and> status p = CLOSED" for p
    using that ok pollCloseProcessor_closed by blast
  show "pollCloseProcessor d s pollId =
          (s\<lparr>polls := map (\<lambda>q. if poll_id q = pollId then q\<lparr>status := CLOSED\<rparr> else q) (polls s)\<rparr>,
           JobCompleted, (case messageId p of None \<Rightarrow> False | Some m \<Rightarrow> m \<noteq> []) \<and> d)"
    if "find (\<lambda>p. poll_id p = pollId) (polls s) = Some p \<and> status p = OPEN" for p
    using that ok pollCloseProcessor_open by blast
  show "find (\<lambda>p. poll_id p = pollId) (polls (fst (pollCloseProcessor d s pollId)))
          = Some (p\<lparr>status := CLOSED\<rparr>)"
    if "find (\<lambda>p. poll_id p = pollId) (polls s) = Some p \<and> status p = OPEN" for p
    using that pollCloseProcessor_open[OF ok, of pollId p d] by (simp add: find_poll_after_close)
  show "pollCloseProcessor d' (fst (pollCloseProcessor d s pollId)) pollId =
            (fst (pollCloseProcessor d s pollId), JobCompleted, False)"
    using ok by (rule pollCloseProcessor_again)
qed

theorem pollCloseProcessor_idempotent_witness:
  "(rejects (example_store example_poll []) PollFindUnique = None
    \<and> rejects (example_store example_poll []) PollUpdate = None
    \<and> find (\<lambda>p. poll_id p = ''nonexistent'') (polls (example_store example_poll [])) = None
    \<and> pollCloseProcessor True (example_store example_poll []) ''nonexistent'' =
         (example_store example_poll [], JobCompleted, False))
   \<and> (rejects (example_store (example_poll\<lparr>status := CLOSED\<rparr>) []) PollFindUnique = None
    \<and> rejects (example_store (example_poll\<lparr>status := CLOSED\<rparr>) []) PollUpdate = None
    \<and> find (\<lambda>p. poll_id p = ''poll1'') (polls (example_store (example_poll\<lparr>status := CLOSED\<rparr>) []))
         = Some (example_poll\<lparr>status := CLOSED\<rparr>)
    \<and> status (example_poll\<lparr>status := CLOSED\<rparr>) = CLOSED
    \<and> pollCloseProcessor True (example_store (example_poll\<lparr>status := CLOSED\<rparr>) []) ''poll1'' =
         (example_store (example_poll\<lparr>status := CLOSED\<rparr>) [], JobCompleted, False))
   \<and> (find (\<lambda>p. poll_id p = ''poll1'') (polls (example_store example_poll [])) = Some example_poll
    \<and> status example_poll = OPEN
    \<and> pollCloseProcessor True (example_store example_poll []) ''poll1'' =
         (example_store (example_poll\<lparr>status := CLOSED\<rparr>) [], JobCompleted, True)
    \<and> pollCloseProcessor True
         (fst (pollCloseProcessor True (example_store example_poll []) ''poll1'')) ''poll1'' =
         (example_store (example_poll\<lparr>status := CLOSED\<rparr>) [], JobCompleted, False))"
  using pollCloseProcessor_idempotent
      [of "example_store example_poll []" "''nonexistent''" True True]
    pollCloseProcessor_idempotent
      [of "example_store (example_poll\<lparr>status := CLOSED\<rparr>) []" "''poll1''" True True]
    pollCloseProcessor_idempotent
      [of "example_store example_poll []" "''poll1''" True True]
  by (simp add: example_store_def example_poll_def)

section \<open>Explicit close\<close>

text \<open>
  Claim C3, as stated, at an OPEN poll with a pending closure job, closed by its
  creator: the poll becomes CLOSED and the job \<open>poll-poll1\<close> is still in the queue.
\<close>

theorem closePoll_keeps_pending_job:
  "find (\<lambda>j. jobId j = ''poll-poll1'')
      (jobs ((example_store example_poll [])\<lparr>jobs := [close_job_args 0 ''poll1'' 3600000]\<rparr>))
     = Some (close_job_args 0 ''poll1'' 3600000)
   \<and> snd (closePoll ((example_store example_poll [])\<lparr>jobs := [close_job_args 0 ''poll1'' 3600000]\<rparr>)
        ''poll1'' ''creator1'')
     = \<lparr>content = ''Poll \"Test Poll\" has been closed.'', ephemeral = False\<rparr>
   \<and> map status (polls (fst (closePoll
        ((example_store example_poll [])\<lparr>jobs := [close_job_args 0 ''poll1'' 3600000]\<rparr>)
        ''poll1'' ''creator1''))) = [CLOSED]
   \<and> find (\<lambda>j. jobId j = ''poll-poll1'')
        (jobs (fst (closePoll
          ((example_store example_poll [])\<lparr>jobs := [close_job_args 0 ''poll1'' 3600000]\<rparr>)
          ''poll1'' ''creator1'')))
     = Some (close_job_args 0 ''poll1'' 3600000)"
  by (simp add: closePoll_def closePoll_try_def poll_findUnique_def poll_update_closed_def
      example_store_def example_poll_def close_job_args_def)

lemma closePoll_jobs: "jobs (fst (closePoll s pollId userId)) = jobs s"
  by (simp add: closePoll_def closePoll_try_def poll_findUnique_def poll_update_closed_def
      split: option.splits sum.splits)

text \<open>
  Claim C3, amended. When the store accepts the calls, \<open>closePoll\<close> answers
  \<open>Poll not found.\<close> if the poll is absent, the creator-only refusal if the
  requester is not the creator (whatever the status), \<open>This poll is already closed.\<close>
  if the creator closes a CLOSED poll, and otherwise sets the status to CLOSED; in
  every case the queue of closure jobs is left as it was.
\<close>

theorem closePoll_outcomes:
  assumes ok: "rejects s PollFindUnique = None" "rejects s PollUpdate = None"
  shows "(find (\<lambda>p. poll_id p = pollId) (polls s) = None \<longrightarrow>
            closePoll s pollId userId = (s, \<lparr>content = ''Poll not found.'', ephemeral = True\<rparr>))
       \<and> (\<forall>p. find (\<lambda>p. poll_id p = pollId) (polls s) = Some p \<and> creatorId p \<noteq> userId \<longrightarrow>
            closePoll s pollId userId =
              (s, \<lparr>content = ''Only the poll creator can close this poll.'', ephemeral = True\<rparr>))
       \<and> (\<forall>p. find (\<lambda>p. poll_id p = pollId) (polls s) = Some p \<and> creatorId p = userId
               \<and> status p = CLOSED \<longrightarrow>
            closePoll s pollId userId =
              (s, \<lparr>content = ''This poll is already closed.'', ephemeral = True\<rparr>))
       \<and> (\<forall>p. find (\<lambda>p. poll_id p = pollId) (polls s) = Some p \<and> creatorId p = userId
               \<and> status p = OPEN \<longrightarrow>
            closePoll s pollId userId =
              (s\<lparr>polls := map (\<lambda>q. if poll_id q = pollId then q\<lparr>status := CLOSED\<rparr> else q)
                             (polls s)\<rparr>,
               \<lparr>content = ''Poll \"'' @ title p @ ''\" has been closed.'', ephemeral = False\<rparr>))
       \<and> jobs (fst (closePoll s pollId userId)) = jobs s"
proof (intro conjI allI impI)
  show "jobs (fst (closePoll s pollId userId)) = jobs s" by (rule closePoll_jobs)
next
  fix p assume "find (\<lambda>p. poll_id p = pollId) (polls s) = Some p \<and> creatorId p = userId \<and> status p = OPEN"
  then show "closePoll s pollId userId =
              (s\<lparr>polls := map (\<lambda>q. if poll_id q = pollId then q\<lparr>status := CLOSED\<rparr> else q)
                             (polls s)\<rparr>,
               \<lparr>content = ''Poll \"'' @ title p @ ''\" has been closed.'', ephemeral = False\<rparr>)"
    using ok find_poll_in_set[of pollId "polls s" p]
    by (simp add: closePoll_def closePoll_try_def poll_findUnique_def poll_update_closed_def)
qed (use ok in \<open>simp_all add: closePoll_def closePoll_try_def poll_findUnique_def\<close>)

theorem closePoll_outcomes_witness:
  "(rejects (example_store example_poll []) PollFindUnique = None
    \<and> rejects (example_store example_poll []) PollUpdate = None
    \<and> find (\<lambda>p. poll_id p = ''nonexistent'') (polls (example_store example_poll [])) = None
    \<and> closePoll (example_store example_poll []) ''nonexistent'' ''creator1'' =
         (example_store example_poll [], \<lparr>content = ''Poll not found.'', ephemeral = True\<rparr>))
   \<and> (find (\<lambda>p. poll_id p = ''poll1'') (polls (example_store example_poll [])) = Some example_poll
    \<and> creatorId example_poll \<noteq> ''user1''
    \<and> closePoll (example_store example_poll []) ''poll1'' ''user1'' =
         (example_store example_poll [],
          \<lparr>content = ''Only the poll creator can close this poll.'', ephemeral = True\<rparr>))
   \<and> (rejects (example_store (example_poll\<lparr>status := CLOSED\<rparr>) []) PollFindUnique = None
    \<and> rejects (example_store (example_poll\<lparr>status := CLOSED\<rparr>) []) PollUpdate = None
    \<and> find (\<lambda>p. poll_id p = ''poll1'') (polls (example_store (example_poll\<lparr>status := CLOSED\<rparr>) []))
         = Some (example_poll\<lparr>status := CLOSED\<rparr>)
    \<and> creatorId (example_poll\<lparr>status := CLOSED\<rparr>) = ''creator1''
    \<and> status (example_poll\<lparr>status := CLOSED\<rparr>) = CLOSED
    \<and> closePoll (example_store (example_poll\<lparr>status := CLOSED\<rparr>) []) ''poll1'' ''creator1'' =
         (example_store (example_poll\<lparr>status := CLOSED\<rparr>) [],
          \<lparr>content = ''This poll is already closed.'', ephemeral = True\<rparr>))
   \<and> (creatorId example_poll = ''creator1'' \<and> status example_poll = OPEN
    \<and> closePoll (example_store example_poll []) ''poll1'' ''creator1'' =
         (example_store (example_poll\<lparr>status := CLOSED\<rparr>) [],
          \<lparr>content = ''Poll \"Test Poll\" has been closed.'', ephemeral = False\<rparr>))"
  using closePoll_outcomes [of "example_store example_poll []" "''nonexistent''" "''creator1''"]
    closePoll_outcomes [of "example_store example_poll []" "''poll1''" "''user1''"]
    closePoll_outcomes
      [of "example_store (example_poll\<lparr>status := CLOSED\<rparr>) []" "''poll1''" "''creator1''"]
    closePoll_outcomes [of "example_store example_poll []" "''poll1''" "''creator1''"]
  by (simp add: example_store_def example_poll_def)

section \<open>The status of a poll only ever closes\<close>

lemma status_step_refl: "status_step p p"
  by (simp add: status_step_def)

lemma status_step_trans: "status_step p q \<Longrightarrow> status_step q r \<Longrightarrow> status_step p r"
  by (auto simp: status_step_def)

lemma status_step_close: "status_step p (p\<lparr>status := CLOSED\<rparr>)"
  by (cases "status p") (auto simp: status_step_def)

lemma polls_steps_refl: "list_all2 status_step ps ps"
  by (simp add: list_all2_refl status_step_refl)

lemma polls_steps_close:
  "list_all2 status_step ps (map (\<lambda>q. if poll_id q = pollId then q\<lparr>status := CLOSED\<rparr> else q) ps)"
  by (induction ps) (simp_all add: status_step_close status_step_refl)

lemma polls_poll_update_closed:
  "poll_update_closed s pollId = Inr s' \<Longrightarrow> list_all2 status_step (polls s) (polls s')"
  by (auto simp: poll_update_closed_def polls_steps_close split: option.splits if_splits)

lemma polls_handleVoteButton: "polls (fst (handleVoteButton s now pollId userId optionId)) = polls s"
  by (auto simp: handleVoteButton_def handleVoteButton_try_def
      dest!: vote_delete_frame vote_deleteMany_frame vote_create_frame
      split: sum.splits option.splits if_splits prod.splits)

lemma polls_closePoll:
  "list_all2 status_step (polls s) (polls (fst (closePoll s pollId userId)))"
  by (auto simp: closePoll_def closePoll_try_def polls_steps_refl
      dest: polls_poll_update_closed split: sum.splits option.splits)

lemma polls_pollCloseProcessor:
  "list_all2 status_step (polls s) (polls (fst (pollCloseProcessor d s pollId)))"
  by (auto simp: pollCloseProcessor_def polls_steps_refl
      dest: polls_poll_update_closed split: sum.splits option.splits)

lemma polls_addPollCloseJob: "addPollCloseJob s now pollId closeAt = Inr s' \<Longrightarrow> polls s' = polls s"
  by (auto simp: addPollCloseJob_def queue_add_def split: option.splits if_splits)

lemma polls_removePollCloseJob: "removePollCloseJob s pollId = Inr s' \<Longrightarrow> polls s' = polls s"
  by (auto simp: removePollCloseJob_def split: option.splits)

lemma polls_apply_op: "list_all2 status_step (polls s) (polls (apply_op s op))"
proof (cases op)
  case (CastVote now pollId userId optionId)
  then show ?thesis by (simp add: castVote_frame polls_steps_refl)
next
  case (ButtonVote now pollId userId optionId)
  then show ?thesis by (simp add: polls_handleVoteButton polls_steps_refl)
next
  case (ClosePoll pollId userId)
  then show ?thesis by (simp add: polls_closePoll)
next
  case (ScheduledClose d pollId)
  then show ?thesis by (simp add: polls_pollCloseProcessor)
next
  case (Schedule now pollId closeAt)
  then show ?thesis
    by (auto simp: polls_steps_refl dest: polls_addPollCloseJob split: sum.splits)
next
  case (Cancel pollId)
  then show ?thesis
    by (auto simp: polls_steps_refl dest: polls_removePollCloseJob split: sum.splits)
next
  case (Environment r)
  then show ?thesis by (simp add: polls_steps_refl)
qed

lemma polls_run_ops: "list_all2 status_step (polls s) (polls (run_ops s ops))"
proof (induction ops arbitrary: s)
  case Nil
  show ?case by (simp add: run_ops_def polls_steps_refl)
next
  case (Cons op ops)
  have "list_all2 status_step (polls s) (polls (apply_op s op))" by (rule polls_apply_op)
  moreover have "list_all2 status_step (polls (apply_op s op)) (polls (run_ops (apply_op s op) ops))"
    by (rule Cons.IH)
  ultimately have "list_all2 status_step (polls s) (polls (run_ops (apply_op s op) ops))"
    by (rule list_all2_trans[rotated]) (rule status_step_trans)
  then show ?case by (simp add: run_ops_def)
qed

lemma closed_poll_kept:
  "list_all2 status_step ps qs \<Longrightarrow> find (\<lambda>p. poll_id p = pollId) ps = Some p \<Longrightarrow> status p = CLOSED
   \<Longrightarrow> find (\<lambda>p. poll_id p = pollId) qs = Some p"
proof (induction ps qs rule: list_all2_induct)
  case Nil
  then show ?case by simp
next
  case (Cons x xs y ys)
  show ?case
  proof (cases "poll_id x = pollId")
    case True
    with Cons.prems have "p = x" by simp
    with Cons.hyps(1) Cons.prems(2) have "y = x" by (auto simp: status_step_def)
    with True \<open>p = x\<close> show ?thesis by simp
  next
    case False
    from Cons.hyps(1) have "poll_id y = poll_id x" by (auto simp: status_step_def)
    with False Cons show ?thesis by simp
  qed
qed

text \<open>
  Claim C8. Over every run of the operations (votes through the service or the
  button, explicit close, scheduled closure, scheduling and cancelling a job, and
  changes of what the store rejects), every poll row is either unchanged or has
  gone from OPEN to CLOSED with nothing else changed; a poll that is CLOSED is
  found unchanged, still CLOSED, after the run.
\<close>

theorem status_only_closes:
  "list_all2 status_step (polls s) (polls (run_ops s ops))
   \<and> (\<forall>pollId p. find (\<lambda>p. poll_id p = pollId) (polls s) = Some p \<and> status p = CLOSED \<longrightarrow>
         find (\<lambda>p. poll_id p = pollId) (polls (run_ops s ops)) = Some p)"
  using polls_run_ops closed_poll_kept by blast

theorem status_only_closes_witness:
  "(find (\<lambda>p. poll_id p = ''poll1'') (polls (example_store (example_poll\<lparr>status := CLOSED\<rparr>) []))
      = Some (example_poll\<lparr>status := CLOSED\<rparr>)
    \<and> status (example_poll\<lparr>status := CLOSED\<rparr>) = CLOSED
    \<and> polls (run_ops (example_store (example_poll\<lparr>status := CLOSED\<rparr>) [])
         [CastVote 1000 ''poll1'' ''user1'' ''option1'', ClosePoll ''poll1'' ''creator1'',
          ScheduledClose True ''poll1'', ButtonVote 2000 ''poll1'' ''user1'' ''option2''])
      = [example_poll\<lparr>status := CLOSED\<rparr>])
   \<and> polls (run_ops (example_store example_poll [])
         [CastVote 1000 ''poll1'' ''user1'' ''option1'', ClosePoll ''poll1'' ''user1'',
          ClosePoll ''poll1'' ''creator1'', ScheduledClose True ''poll1''])
      = [example_poll\<lparr>status := CLOSED\<rparr>]"
  using status_only_closes
      [of "example_store (example_poll\<lparr>status := CLOSED\<rparr>) []"
          "[CastVote 1000 ''poll1'' ''user1'' ''option1'', ClosePoll ''poll1'' ''creator1'',
            ScheduledClose True ''poll1'', ButtonVote 2000 ''poll1'' ''user1'' ''option2'']"]
    status_only_closes
      [of "example_store example_poll []"
          "[CastVote 1000 ''poll1'' ''user1'' ''option1'', ClosePoll ''poll1'' ''user1'',
            ClosePoll ''poll1'' ''creator1'', ScheduledClose True ''poll1'']"]
  by (simp add: castVote_def castVote_try_def handleVoteButton_def handleVoteButton_try_def
      closePoll_def closePoll_try_def pollCloseProcessor_def poll_update_closed_def
      poll_findUnique_def include_options_def
      include_user_votes_def vote_create_def vote_delete_def vote_deleteMany_def
      run_ops_def example_store_def example_poll_def example_options_def)

section \<open>Percentages\<close>

text \<open>
  The percentages that the repository's tests expect, and three counts at which the
  rounding of the double decides the result.
\<close>

lemma percentage_of_test_counts:
  "percentage 2 3 = 67 \<and> percentage 1 3 = 33 \<and> percentage 3 6 = 50 \<and> percentage 1 6 = 17"
  by (simp add: percentage_def math_round_def double_times_100_def round_to_double_def
      round_scaled_def double_exponent_def round_quotient_def bit_length.simps)

lemma percentage_rounds_the_double:
  "percentage 23 40 = 57 \<and> percentage 1 8 = 13 \<and> percentage 29 200 = 14"
  by (simp add: percentage_def math_round_def double_times_100_def round_to_double_def
      round_scaled_def double_exponent_def round_quotient_def bit_length.simps)

lemma percentage_zero_total: "percentage count 0 = 0"
  by (simp add: percentage_def)

section \<open>Results are never computed\<close>

text \<open>
  Claim C10. For every poll id and every state of the store, also one where the poll
  exists and has votes, \<open>getPollResults\<close> returns null: building the argument of
  the lookup reads the binding \<open>poll\<close> inside its own initialiser, which throws
  before the store is asked, and the \<open>catch\<close> handler turns the error into null.
\<close>

theorem getPollResults_always_null: "getPollResults s pollId = None"
  by (simp add: getPollResults_def getPollResults_try_def read_binding_def)

text \<open>
  Claim C9. The claim asks for a tally whenever the poll exists. On the state of the
  repository's own test (poll \<open>poll1\<close>, two votes for the first option and one for
  the second) the poll is found by the store, and \<open>getPollResults\<close> returns null.
\<close>

theorem getPollResults_existing_poll_null:
  "find (\<lambda>p. poll_id p = ''poll1'')
     (polls (example_store example_poll
        [example_vote 0 ''user1'' ''option1'', example_vote 1 ''user2'' ''option1'',
         example_vote 2 ''user3'' ''option2''])) = Some example_poll
   \<and> getPollResults (example_store example_poll
        [example_vote 0 ''user1'' ''option1'', example_vote 1 ''user2'' ''option1'',
         example_vote 2 ''user3'' ''option2'']) ''poll1'' = None"
  by (simp add: getPollResults_def getPollResults_try_def read_binding_def
      example_store_def example_poll_def)

section \<open>The delay of a closure job\<close>

text \<open>
  Claim C7, as stated, at a close time in the past: scheduling at instant 1000 a
  closure for instant 0 registers a job whose delay is \<open>-1000\<close>. Nothing clamps it.
\<close>

theorem addPollCloseJob_negative_delay:
  "addPollCloseJob (example_store example_poll []) 1000 ''poll1'' 0 =
     Inr ((example_store example_poll [])
       \<lparr>jobs := [\<lparr>job_name = ''close-poll'', job_pollId = ''poll1'',
                  delay = - 1000, jobId = ''poll-poll1''\<rparr>]\<rparr>)
   \<and> \<not> (0 \<le> delay (close_job_args 1000 ''poll1'' 0))"
  by (simp add: addPollCloseJob_def queue_add_def close_job_args_def example_store_def)

text \<open>
  Claim C7, amended. When the queue accepts the call and holds no job for the poll
  yet, \<open>addPollCloseJob\<close> registers the job \<open>close-poll\<close> under the key
  \<open>poll-<pollId>\<close> with a delay of exactly \<open>closeAt - now\<close>; that delay is
  non-negative exactly when the close time is not in the past.
\<close>

theorem addPollCloseJob_delay:
  assumes "rejects s QueueAdd = None"
    and "''poll-'' @ pollId \<notin> set (map jobId (jobs s))"
  shows "addPollCloseJob s now pollId closeAt =
           Inr (s\<lparr>jobs := jobs s @
                 [\<lparr>job_name = ''close-poll'', job_pollId = pollId,
                   delay = closeAt - now, jobId = ''poll-'' @ pollId\<rparr>]\<rparr>)
         \<and> (0 \<le> delay (close_job_args now pollId closeAt) \<longleftrightarrow> now \<le> closeAt)"
  using assms by (simp add: addPollCloseJob_def queue_add_def close_job_args_def)

theorem addPollCloseJob_delay_witness:
  "rejects (example_store example_poll []) QueueAdd = None
   \<and> ''poll-'' @ ''poll1'' \<notin> set (map jobId (jobs (example_store example_poll [])))
   \<and> addPollCloseJob (example_store example_poll []) 1000 ''poll1'' 61000 =
           Inr ((example_store example_poll [])\<lparr>jobs := jobs (example_store example_poll []) @
                 [\<lparr>job_name = ''close-poll'', job_pollId = ''poll1'',
                   delay = 60000, jobId = ''poll-poll1''\<rparr>]\<rparr>)"
  using addPollCloseJob_delay [of "example_store example_poll []" "''poll1''" 1000 61000]
  by (simp add: example_store_def)

end
